theory Spec2Isabelle
  imports Complex_Main "HOL-Library.Product_Lexorder" "HOL-Library.Multiset"
begin

section \<open>Numbers and calendar dates of the host language\<close>

text \<open>
  The program is Python. Its \<^verbatim>\<open>int\<close> is unbounded and is modelled by \<^typ>\<open>int\<close>.
  Its \<^verbatim>\<open>float\<close> is modelled by exact rational arithmetic (\<^typ>\<open>rat\<close>): every value the
  calculators build is a quotient of integers and decimal literals, and the properties
  below are about branch structure, order and cumulative sums. The binary rounding of
  IEEE doubles is not part of the model.

  \<^verbatim>\<open>round(x)\<close> and \<^verbatim>\<open>round(x, 2)\<close> round half to even.
\<close>

datatype error = ValueError | ZeroDivisionError | IntegrityError

definition py_round :: "rat \<Rightarrow> int" where
  "py_round x =
     (let f = \<lfloor>x\<rfloor>; r = x - of_int f
      in if r < 1 / 2 then f
         else if 1 / 2 < r then f + 1
         else if even f then f else f + 1)"

definition round2 :: "rat \<Rightarrow> rat" where
  "round2 x = of_int (py_round (x * 100)) / 100"

text \<open>
  \<^verbatim>\<open>datetime.date\<close>: a year, a month and a day; the constructor raises \<^verbatim>\<open>ValueError\<close>
  outside \<^verbatim>\<open>MINYEAR..MAXYEAR\<close> (1..9999), months 1..12 and the days of the month. Dates
  compare as the tuples \<^verbatim>\<open>(year, month, day)\<close>; a difference of two dates is the
  difference of their proleptic Gregorian ordinals.
\<close>

record date =
  year :: int
  month :: int
  day :: int

definition is_leap :: "int \<Rightarrow> bool" where
  "is_leap y = (y mod 4 = 0 \<and> (y mod 100 \<noteq> 0 \<or> y mod 400 = 0))"

definition DAYS_IN_MONTH :: "int list" where
  "DAYS_IN_MONTH = [-1, 31, 28, 31, 30, 31, 30, 31, 31, 30, 31, 30, 31]"

definition DAYS_BEFORE_MONTH :: "int list" where
  "DAYS_BEFORE_MONTH = [-1, 0, 31, 59, 90, 120, 151, 181, 212, 243, 273, 304, 334]"

definition days_in_month :: "int \<Rightarrow> int \<Rightarrow> int" where
  "days_in_month y m = (if m = 2 \<and> is_leap y then 29 else DAYS_IN_MONTH ! nat m)"

definition days_before_year :: "int \<Rightarrow> int" where
  "days_before_year y' =
     (let y = y' - 1 in y * 365 + y div 4 - y div 100 + y div 400)"

definition days_before_month :: "int \<Rightarrow> int \<Rightarrow> int" where
  "days_before_month y m =
     DAYS_BEFORE_MONTH ! nat m + (if 2 < m \<and> is_leap y then 1 else 0)"

definition ymd2ord :: "int \<Rightarrow> int \<Rightarrow> int \<Rightarrow> int" where
  "ymd2ord y m d = days_before_year y + days_before_month y m + d"

definition toordinal :: "date \<Rightarrow> int" where
  "toordinal d = ymd2ord (year d) (month d) (day d)"

definition valid_date :: "date \<Rightarrow> bool" where
  "valid_date d =
     (1 \<le> year d \<and> year d \<le> 9999 \<and> 1 \<le> month d \<and> month d \<le> 12 \<and>
      1 \<le> day d \<and> day d \<le> days_in_month (year d) (month d))"

definition mk_date :: "int \<Rightarrow> int \<Rightarrow> int \<Rightarrow> error + date" where
  "mk_date y m d =
     (let dt = \<lparr>year = y, month = m, day = d\<rparr>
      in if valid_date dt then Inr dt else Inl ValueError)"

text \<open>The number of days of a year.\<close>

definition year_length :: "int \<Rightarrow> int" where
  "year_length y = (if is_leap y then 366 else 365)"

definition date_key :: "date \<Rightarrow> int \<times> int \<times> int" where
  "date_key d = (year d, month d, day d)"

definition date_lt :: "date \<Rightarrow> date \<Rightarrow> bool" where
  "date_lt a b = (date_key a < date_key b)"

definition date_le :: "date \<Rightarrow> date \<Rightarrow> bool" where
  "date_le a b = (date_key a \<le> date_key b)"

text \<open>\<^verbatim>\<open>(a - b).days\<close> for two dates.\<close>

definition days_between :: "date \<Rightarrow> date \<Rightarrow> int" where
  "days_between a b = toordinal a - toordinal b"

text \<open>\<^verbatim>\<open>calendar.monthrange(year, month)[1]\<close>, for a month in 1..12 and any year.\<close>

definition monthrange_days :: "int \<Rightarrow> int \<Rightarrow> int" where
  "monthrange_days y m = DAYS_IN_MONTH ! nat m + (if m = 2 \<and> is_leap y then 1 else 0)"

section \<open>Entity model (models.py)\<close>

record Pruefungsleistung =
  pl_note :: rat
  pl_datum :: date

record Modul =
  m_name :: string
  m_ects :: int
  m_startdatum :: "date option"
  m_pruefungsleistung :: "Pruefungsleistung option"

record Studiengang =
  sg_name :: string
  sg_regelstudienzeit :: int
  sg_ects_gesamt :: int
  sg_startdatum :: date
  sg_module_list :: "Modul list"

definition hasPruefungsleistung :: "Modul \<Rightarrow> bool" where
  "hasPruefungsleistung m = (m_pruefungsleistung m \<noteq> None)"

subsection \<open>Modul.berechneBenoetigteTage\<close>

definition berechneBenoetigteTage :: "Modul \<Rightarrow> int option" where
  "berechneBenoetigteTage m =
     (case m_pruefungsleistung m of
        None \<Rightarrow> None
      | Some p \<Rightarrow>
          (case m_startdatum m of
             None \<Rightarrow> None
           | Some s \<Rightarrow>
               if date_lt (pl_datum p) s then None
               else Some (days_between (pl_datum p) s)))"

subsection \<open>Studiengang.berechneErreichteECTS\<close>

text \<open>The loop over the module list, with the running total as accumulator.\<close>

fun erreichte_ects_schleife :: "Modul list \<Rightarrow> int \<Rightarrow> int" where
  "erreichte_ects_schleife [] acc = acc"
| "erreichte_ects_schleife (m # ms) acc =
     erreichte_ects_schleife ms (if hasPruefungsleistung m then acc + m_ects m else acc)"

definition berechneErreichteECTS :: "Studiengang \<Rightarrow> int" where
  "berechneErreichteECTS sg = erreichte_ects_schleife (sg_module_list sg) 0"

subsection \<open>Studiengang.berechneTageProModulRichtwert\<close>

definition TAGE_PRO_JAHR :: rat where
  "TAGE_PRO_JAHR = 36525 / 100"

definition SEMESTER_PRO_JAHR :: int where
  "SEMESTER_PRO_JAHR = 2"

definition URLAUBSTAGE_PRO_JAHR :: int where
  "URLAUBSTAGE_PRO_JAHR = 6 * 7"

definition ECTS_CREDITS_PRO_MODUL_BEZUGSWERT :: int where
  "ECTS_CREDITS_PRO_MODUL_BEZUGSWERT = 5"

text \<open>
  The reference date is the parameter \<open>datum\<close>. (In the source its default value is
  computed once, when the class body is evaluated.)
\<close>

definition berechneTageProModulRichtwert :: "Studiengang \<Rightarrow> date \<Rightarrow> rat" where
  "berechneTageProModulRichtwert sg datum =
     (let gesamt_studium_tag =
            of_int (sg_regelstudienzeit sg) * (TAGE_PRO_JAHR / of_int SEMESTER_PRO_JAHR);
          gesamt_urlaub_tage =
            of_int (sg_regelstudienzeit sg) *
              (of_int URLAUBSTAGE_PRO_JAHR / of_int SEMESTER_PRO_JAHR);
          gesamt_netto_tage = gesamt_studium_tag - gesamt_urlaub_tage;
          verstrichene_tage = days_between datum (sg_startdatum sg);
          verbleibende_tage = gesamt_netto_tage - of_int verstrichene_tage;
          erreichte_ects = berechneErreichteECTS sg;
          ausstehende_ects = sg_ects_gesamt sg - erreichte_ects
      in if ausstehende_ects \<le> 0 then 0
         else if verbleibende_tage \<le> 0 then 999
         else (let richtwert_pro_ects = verbleibende_tage / of_int ausstehende_ects;
                   richtwert_bezugswert =
                     richtwert_pro_ects * of_int ECTS_CREDITS_PRO_MODUL_BEZUGSWERT
               in round2 richtwert_bezugswert))"

subsection \<open>Studiengang.berechneNotendurchschnitt\<close>

text \<open>The loop carries \<open>(ects_kumuliert, gewichtete_notensumme_kumuliert)\<close>.\<close>

fun notendurchschnitt_schleife :: "Modul list \<Rightarrow> rat \<times> rat \<Rightarrow> rat \<times> rat" where
  "notendurchschnitt_schleife [] acc = acc"
| "notendurchschnitt_schleife (m # ms) (ects_kumuliert, notensumme) =
     notendurchschnitt_schleife ms
       (case m_pruefungsleistung m of
          None \<Rightarrow> (ects_kumuliert, notensumme)
        | Some p \<Rightarrow>
            (ects_kumuliert + of_int (m_ects m),
             notensumme + pl_note p * of_int (m_ects m)))"

definition berechneNotendurchschnitt :: "Studiengang \<Rightarrow> rat option" where
  "berechneNotendurchschnitt sg =
     (case notendurchschnitt_schleife (sg_module_list sg) (0, 0) of
        (ects_kumuliert, notensumme) \<Rightarrow>
          if ects_kumuliert = 0 then None
          else Some (round2 (notensumme / ects_kumuliert)))"

subsection \<open>Studiengang.berechneNotendurchschnittVerlauf\<close>

text \<open>The dictionaries with the keys \<^verbatim>\<open>abschlussdatum\<close>, \<^verbatim>\<open>note\<close>, \<^verbatim>\<open>ects\<close>.\<close>

record Abschluss =
  abschlussdatum :: date
  a_note :: rat
  a_ects :: int

fun abgeschlossene_module :: "Modul list \<Rightarrow> Abschluss list" where
  "abgeschlossene_module [] = []"
| "abgeschlossene_module (m # ms) =
     (case m_pruefungsleistung m of
        None \<Rightarrow> abgeschlossene_module ms
      | Some p \<Rightarrow>
          \<lparr>abschlussdatum = pl_datum p, a_note = pl_note p, a_ects = m_ects m\<rparr>
            # abgeschlossene_module ms)"

text \<open>
  The cumulative loop. The quotient is a float division, which raises
  \<^verbatim>\<open>ZeroDivisionError\<close> when the cumulated credits are zero.
\<close>

fun verlauf_schleife ::
  "Abschluss list \<Rightarrow> rat \<Rightarrow> rat \<Rightarrow> rat list \<Rightarrow> error + rat list" where
  "verlauf_schleife [] ects_kumuliert notensumme verlauf = Inr verlauf"
| "verlauf_schleife (a # as) ects_kumuliert notensumme verlauf =
     (let ects_kumuliert' = ects_kumuliert + of_int (a_ects a);
          notensumme' = notensumme + a_note a * of_int (a_ects a)
      in if ects_kumuliert' = 0 then Inl ZeroDivisionError
         else verlauf_schleife as ects_kumuliert' notensumme'
                (verlauf @ [round2 (notensumme' / ects_kumuliert')]))"

text \<open>\<^verbatim>\<open>list.sort(key=...)\<close> is a stable sort, as \<^const>\<open>sort_key\<close> is.\<close>

definition berechneNotendurchschnittVerlauf :: "Studiengang \<Rightarrow> error + rat list" where
  "berechneNotendurchschnittVerlauf sg =
     (let abgeschlossene = abgeschlossene_module (sg_module_list sg)
      in if abgeschlossene = [] then Inr []
         else verlauf_schleife
                (sort_key (\<lambda>m. date_key (abschlussdatum m)) abgeschlossene) 0 0 [])"

section \<open>Application layer (study_service.py)\<close>

record ProgressDaten =
  ist_ects :: int
  soll_ects :: int
  gesamt_ects :: int

record PrognoseDaten =
  noten_ziel_erreicht :: bool
  zeit_ziel_erreicht :: bool
  regelstudienzeit_jahre :: rat

record DashboardDaten =
  studiengang_name :: string
  progress :: ProgressDaten
  notendurchschnitt :: "rat option"
  tage_pro_modul_richtwert :: rat
  tage_pro_modul_text :: string
  prognose :: PrognoseDaten
  notenverlauf :: "rat list"
  zeitaufwand_history :: "(string \<times> int) list"

subsection \<open>Planned end date and expected credits\<close>

definition berechne_enddatum :: "date \<Rightarrow> int \<Rightarrow> error + date" where
  "berechne_enddatum startdatum regelstudienzeit_semester =
     (let monate = max (regelstudienzeit_semester * 6) 0;
          jahr = year startdatum + (month startdatum - 1 + monate) div 12;
          monat = (month startdatum - 1 + monate) mod 12 + 1;
          tag = min (day startdatum) (monthrange_days jahr monat)
      in mk_date jahr monat tag)"

definition runde_zu_modul_ects :: "rat \<Rightarrow> int \<Rightarrow> int" where
  "runde_zu_modul_ects raw_value gesamt =
     (if gesamt \<le> 0 then 0
      else (let multiple_of_five = py_round (raw_value / 5) * 5
            in max 0 (min multiple_of_five gesamt)))"

text \<open>\<^verbatim>\<open>min(a, b)\<close> on dates: the first argument unless the second is smaller.\<close>

definition min_date :: "date \<Rightarrow> date \<Rightarrow> date" where
  "min_date a b = (if date_lt b a then b else a)"

text \<open>\<open>heute\<close> stands for \<^verbatim>\<open>date.today()\<close>.\<close>

definition berechne_progress_daten :: "Studiengang \<Rightarrow> date \<Rightarrow> error + ProgressDaten" where
  "berechne_progress_daten sg heute =
     (let ist = berechneErreichteECTS sg;
          gesamt = sg_ects_gesamt sg;
          startdatum = sg_startdatum sg;
          regelstudienzeit = sg_regelstudienzeit sg
      in case berechne_enddatum startdatum regelstudienzeit of
           Inl e \<Rightarrow> Inl e
         | Inr enddatum \<Rightarrow>
             (let gesamt_tage = max (days_between enddatum startdatum) 0;
                  heutedatum = min_date heute enddatum;
                  verstrichene_tage = max (days_between heutedatum startdatum) 0;
                  soll_anteil =
                    (if 0 < gesamt_tage
                     then of_int verstrichene_tage / of_int gesamt_tage else 0);
                  raw_soll_ects = of_int gesamt * min soll_anteil 1;
                  soll = runde_zu_modul_ects raw_soll_ects gesamt
              in Inr \<lparr>ist_ects = ist, soll_ects = soll, gesamt_ects = gesamt\<rparr>))"

subsection \<open>Forecast\<close>

definition berechne_prognose_daten ::
  "Studiengang \<Rightarrow> ProgressDaten \<Rightarrow> rat option \<Rightarrow> PrognoseDaten" where
  "berechne_prognose_daten sg pr durchschnitt =
     (let note_ziel = (case durchschnitt of None \<Rightarrow> False | Some n \<Rightarrow> n \<le> 19 / 10);
          zeit_ziel = (soll_ects pr \<le> ist_ects pr);
          regelstudienzeit = sg_regelstudienzeit sg;
          jahre = of_int regelstudienzeit / 2
      in \<lparr>noten_ziel_erreicht = note_ziel, zeit_ziel_erreicht = zeit_ziel,
          regelstudienzeit_jahre = jahre\<rparr>)"

subsection \<open>Days-required history\<close>

fun zeitaufwand_daten :: "Modul list \<Rightarrow> (string \<times> int \<times> date) list" where
  "zeitaufwand_daten [] = []"
| "zeitaufwand_daten (m # ms) =
     (case m_pruefungsleistung m of
        None \<Rightarrow> zeitaufwand_daten ms
      | Some p \<Rightarrow>
          (case berechneBenoetigteTage m of
             None \<Rightarrow> zeitaufwand_daten ms
           | Some tage \<Rightarrow> (m_name m, tage, pl_datum p) # zeitaufwand_daten ms))"

definition ermittle_zeitaufwand_history :: "Studiengang \<Rightarrow> (string \<times> int) list" where
  "ermittle_zeitaufwand_history sg =
     map (\<lambda>(name, tage, _). (name, tage))
       (sort_key (\<lambda>(_, _, d). date_key d) (zeitaufwand_daten (sg_module_list sg)))"

subsection \<open>Rendering of the pacing value\<close>

function string_of_nat :: "nat \<Rightarrow> string" where
  "string_of_nat n =
     (if n < 10 then [char_of (48 + n)]
      else string_of_nat (n div 10) @ [char_of (48 + n mod 10)])"
  by pat_completeness auto
termination
  by (relation "measure id") auto

text \<open>\<^verbatim>\<open>f"{x:.0f}"\<close>: the value rounded to an integer, with the sign of \<open>x\<close>.\<close>

definition format_0f :: "rat \<Rightarrow> string" where
  "format_0f x =
     (if x < 0 then ''-'' else []) @ string_of_nat (nat \<bar>py_round x\<bar>)"

text \<open>The text of the infinity sign U+221E, in UTF-8.\<close>

definition unendlich :: string where
  "unendlich = [CHR 0xE2, CHR 0x88, CHR 0x9E]"

definition tage_text :: "rat \<Rightarrow> string" where
  "tage_text richtwert =
     (if 999 \<le> richtwert then unendlich else format_0f richtwert @ '' Tage'')"

subsection \<open>The dashboard snapshot\<close>

text \<open>
  \<open>store\<close> is what the connector returns for a programme id, \<open>heute\<close> is
  \<^verbatim>\<open>date.today()\<close>, and \<open>richtwert_datum\<close> is the default reference date of
  \<open>berechneTageProModulRichtwert\<close>, which the snapshot does not override.
\<close>

definition lade_studiengang :: "(int \<rightharpoonup> Studiengang) \<Rightarrow> int \<Rightarrow> Studiengang option" where
  "lade_studiengang store studiengang_id = store studiengang_id"

definition erzeuge_dashboard_daten ::
  "(int \<rightharpoonup> Studiengang) \<Rightarrow> date \<Rightarrow> date \<Rightarrow> int \<Rightarrow> error + DashboardDaten option" where
  "erzeuge_dashboard_daten store heute richtwert_datum studiengang_id =
     (case lade_studiengang store studiengang_id of
        None \<Rightarrow> Inr None
      | Some sg \<Rightarrow>
          (case berechne_progress_daten sg heute of
             Inl e \<Rightarrow> Inl e
           | Inr pr \<Rightarrow>
               (let durchschnitt = berechneNotendurchschnitt sg;
                    richtwert = berechneTageProModulRichtwert sg richtwert_datum;
                    anzeige = tage_text richtwert;
                    prog = berechne_prognose_daten sg pr durchschnitt
                in case berechneNotendurchschnittVerlauf sg of
                     Inl e \<Rightarrow> Inl e
                   | Inr verlauf \<Rightarrow>
                       Inr (Some
                         \<lparr>studiengang_name = sg_name sg, progress = pr,
                          notendurchschnitt = durchschnitt,
                          tage_pro_modul_richtwert = richtwert,
                          tage_pro_modul_text = anzeige, prognose = prog,
                          notenverlauf = verlauf,
                          zeitaufwand_history = ermittle_zeitaufwand_history sg\<rparr>))))"

section \<open>Recording an exam result (database_connector.py, study_service.py)\<close>











section \<open>The calculators in the words of the specification\<close>

text \<open>Outstanding credits and remaining days of the pacing target (steps 1 to 6).\<close>

definition outstandingCredits :: "Studiengang \<Rightarrow> int" where
  "outstandingCredits sg = sg_ects_gesamt sg - berechneErreichteECTS sg"

definition remainingDays :: "Studiengang \<Rightarrow> date \<Rightarrow> rat" where
  "remainingDays sg asOfDate =
     of_int (sg_regelstudienzeit sg) * ((1461 / 4) / 2)
     - of_int (sg_regelstudienzeit sg) * (42 / 2)
     - of_int (toordinal asOfDate - toordinal (sg_startdatum sg))"



definition exam_date :: "Modul \<Rightarrow> date" where
  "exam_date m = pl_datum (the (m_pruefungsleistung m))"

definition credit_sum :: "Modul list \<Rightarrow> int" where
  "credit_sum ms = sum_list (map m_ects ms)"







section \<open>Example data\<close>

definition d_2025_09_01 :: date where
  "d_2025_09_01 = \<lparr>year = 2025, month = 9, day = 1\<rparr>"

definition d_2025_10_01 :: date where
  "d_2025_10_01 = \<lparr>year = 2025, month = 10, day = 1\<rparr>"

definition d_2025_11_15 :: date where
  "d_2025_11_15 = \<lparr>year = 2025, month = 11, day = 15\<rparr>"

definition d_2026_02_01 :: date where
  "d_2026_02_01 = \<lparr>year = 2026, month = 2, day = 1\<rparr>"


definition d_2030_01_01 :: date where
  "d_2030_01_01 = \<lparr>year = 2030, month = 1, day = 1\<rparr>"

definition mk_modul :: "string \<Rightarrow> int \<Rightarrow> date option \<Rightarrow> (rat \<times> date) option \<Rightarrow> Modul" where
  "mk_modul n e s p =
     \<lparr>m_name = n, m_ects = e, m_startdatum = s,
      m_pruefungsleistung =
        (case p of None \<Rightarrow> None
         | Some (g, d) \<Rightarrow> Some \<lparr>pl_note = g, pl_datum = d\<rparr>)\<rparr>"

definition mk_studiengang :: "int \<Rightarrow> int \<Rightarrow> date \<Rightarrow> Modul list \<Rightarrow> Studiengang" where
  "mk_studiengang r e s ms =
     \<lparr>sg_name = ''AKI'', sg_regelstudienzeit = r, sg_ects_gesamt = e,
      sg_startdatum = s, sg_module_list = ms\<rparr>"

definition modul_mathe :: Modul where
  "modul_mathe = mk_modul ''Mathe'' 5 (Some d_2025_09_01) (Some (1, d_2025_10_01))"

definition modul_stat :: Modul where
  "modul_stat = mk_modul ''Statistik'' 5 (Some d_2025_10_01) (Some (2, d_2025_11_15))"

definition modul_prog :: Modul where
  "modul_prog = mk_modul ''Programmierung'' 5 (Some d_2025_11_15) (Some (3, d_2026_02_01))"

definition modul_offen :: Modul where
  "modul_offen = mk_modul ''Ethik'' 10 None None"

definition modul_inkonsistent :: Modul where
  "modul_inkonsistent =
     mk_modul ''Recht'' 5 (Some d_2025_11_15) (Some (2, d_2025_10_01))"

definition modul_ohne_start :: Modul where
  "modul_ohne_start = mk_modul ''Englisch'' 5 None (Some (2, d_2025_10_01))"


definition sg_beispiel :: Studiengang where
  "sg_beispiel = mk_studiengang 8 180 d_2025_09_01 [modul_mathe, modul_offen]"

definition dd_beispiel :: DashboardDaten where
  "dd_beispiel =
     \<lparr>studiengang_name = ''AKI'',
      progress = \<lparr>ist_ects = 5, soll_ects = 20, gesamt_ects = 180\<rparr>,
      notendurchschnitt = Some 1, tage_pro_modul_richtwert = 3609 / 100,
      tage_pro_modul_text = ''36 Tage'',
      prognose = \<lparr>noten_ziel_erreicht = True, zeit_ziel_erreicht = False,
                  regelstudienzeit_jahre = 4\<rparr>,
      notenverlauf = [1], zeitaufwand_history = [(''Mathe'', 30)]\<rparr>"

definition dd_abgelaufen :: DashboardDaten where
  "dd_abgelaufen =
     \<lparr>studiengang_name = ''AKI'',
      progress = \<lparr>ist_ects = 5, soll_ects = 180, gesamt_ects = 180\<rparr>,
      notendurchschnitt = Some 1, tage_pro_modul_richtwert = 999,
      tage_pro_modul_text = unendlich,
      prognose = \<lparr>noten_ziel_erreicht = True, zeit_ziel_erreicht = False,
                  regelstudienzeit_jahre = 4\<rparr>,
      notenverlauf = [1], zeitaufwand_history = [(''Mathe'', 30)]\<rparr>"

text \<open>A short programme of 8 semesters with 5 credits in total, none of them earned.\<close>

definition sg_kurz :: Studiengang where
  "sg_kurz = mk_studiengang 8 5 d_2025_09_01 [modul_offen]"

definition dd_kurz :: DashboardDaten where
  "dd_kurz =
     \<lparr>studiengang_name = ''AKI'',
      progress = \<lparr>ist_ects = 0, soll_ects = 0, gesamt_ects = 5\<rparr>,
      notendurchschnitt = None, tage_pro_modul_richtwert = 1293,
      tage_pro_modul_text = unendlich,
      prognose = \<lparr>noten_ziel_erreicht = False, zeit_ziel_erreicht = True,
                  regelstudienzeit_jahre = 4\<rparr>,
      notenverlauf = [], zeitaufwand_history = []\<rparr>"

text \<open>A completed module that was created with 0 credits.\<close>

definition modul_null :: Modul where
  "modul_null = mk_modul ''Kolloquium'' 0 (Some d_2025_09_01) (Some (2, d_2025_10_01))"

definition sg_null :: Studiengang where
  "sg_null = mk_studiengang 8 180 d_2025_09_01 [modul_null, modul_stat]"





section \<open>Facts about the calendar\<close>

lemma month_cases:
  fixes m :: int
  assumes "1 \<le> m" "m \<le> 12"
  shows "m = 1 \<or> m = 2 \<or> m = 3 \<or> m = 4 \<or> m = 5 \<or> m = 6 \<or> m = 7 \<or> m = 8 \<or> m = 9
    \<or> m = 10 \<or> m = 11 \<or> m = 12"
  using assms by arith

lemma days_before_month_nonneg:
  assumes "1 \<le> m" "m \<le> 12"
  shows "0 \<le> days_before_month y m"
  using month_cases [OF assms]
  by (auto simp: days_before_month_def DAYS_BEFORE_MONTH_def)

lemma days_before_month_step:
  assumes "1 \<le> m" "m < 12"
  shows "days_before_month y (m + 1) = days_before_month y m + days_in_month y m"
proof -
  have "m = 1 \<or> m = 2 \<or> m = 3 \<or> m = 4 \<or> m = 5 \<or> m = 6 \<or> m = 7 \<or> m = 8 \<or> m = 9
    \<or> m = 10 \<or> m = 11"
    using assms by arith
  then show ?thesis
    by (auto simp: days_before_month_def days_in_month_def DAYS_BEFORE_MONTH_def
        DAYS_IN_MONTH_def)
qed

lemma days_in_month_pos:
  assumes "1 \<le> m" "m \<le> 12"
  shows "28 \<le> days_in_month y m"
  using month_cases [OF assms]
  by (auto simp: days_in_month_def DAYS_IN_MONTH_def)

lemma days_before_month_mono:
  assumes "1 \<le> m" "m < m'" "m' \<le> 12"
  shows "days_before_month y m + days_in_month y m \<le> days_before_month y m'"
proof -
  have "\<And>k::nat. m + 1 + int k \<le> 12 \<Longrightarrow>
      days_before_month y m + days_in_month y m \<le> days_before_month y (m + 1 + int k)"
  proof -
    fix k :: nat
    show "m + 1 + int k \<le> 12 \<Longrightarrow>
      days_before_month y m + days_in_month y m \<le> days_before_month y (m + 1 + int k)"
    proof (induction k)
      case 0
      then show ?case
        using days_before_month_step [of m y] assms by simp
    next
      case (Suc k)
      have le: "m + 1 + int k \<le> 12" using Suc.prems by simp
      have "days_before_month y (m + 1 + int k + 1) =
          days_before_month y (m + 1 + int k) + days_in_month y (m + 1 + int k)"
        using days_before_month_step [of "m + 1 + int k" y] assms Suc.prems by simp
      moreover have "0 \<le> days_in_month y (m + 1 + int k)"
        using days_in_month_pos [of "m + 1 + int k" y] assms le by simp
      ultimately show ?case
        using Suc.IH [OF le] by (simp add: add.assoc)
    qed
  qed
  from this [of "nat (m' - m - 1)"] assms show ?thesis
    by simp
qed

lemma day_of_year_le:
  assumes "1 \<le> m" "m \<le> 12" "d \<le> days_in_month y m"
  shows "days_before_month y m + d \<le> year_length y"
proof -
  have "days_before_month y m + days_in_month y m \<le> year_length y"
    using month_cases [OF assms(1,2)]
    by (auto simp: days_before_month_def days_in_month_def DAYS_BEFORE_MONTH_def
        DAYS_IN_MONTH_def year_length_def)
  then show ?thesis using assms(3) by simp
qed

lemma div_step:
  fixes y k :: int
  assumes "0 < k"
  shows "y div k - (y - 1) div k = (if y mod k = 0 then 1 else 0)"
proof (cases "y mod k = 0")
  case True
  have "y - 1 = k * (y div k - 1) + (k - 1)"
    using True by (simp add: algebra_simps mod_eq_0_iff_dvd)
  then have "(y - 1) div k = y div k - 1"
    using assms by (intro int_div_pos_eq [where r = "k - 1"]) simp_all
  then show ?thesis using True by simp
next
  case False
  have "0 \<le> y mod k"
    using assms by simp
  then have pos: "0 < y mod k"
    using False by linarith
  have "y - 1 = k * (y div k) + (y mod k - 1)"
    by simp
  moreover have "y mod k - 1 < k"
    using assms pos_mod_bound [of k y] by linarith
  ultimately have "(y - 1) div k = y div k"
    using pos by (intro int_div_pos_eq [where r = "y mod k - 1"]) simp_all
  then show ?thesis using False by simp
qed

lemma days_before_year_step:
  "days_before_year (y + 1) = days_before_year y + year_length y"
proof -
  define p4 where "p4 \<longleftrightarrow> y mod 4 = 0"
  define p100 where "p100 \<longleftrightarrow> y mod 100 = 0"
  define p400 where "p400 \<longleftrightarrow> y mod 400 = 0"
  have a: "y div 4 - (y - 1) div 4 = (if p4 then 1 else 0)"
    unfolding p4_def by (rule div_step) simp
  have b: "y div 100 - (y - 1) div 100 = (if p100 then 1 else 0)"
    unfolding p100_def by (rule div_step) simp
  have c: "y div 400 - (y - 1) div 400 = (if p400 then 1 else 0)"
    unfolding p400_def by (rule div_step) simp
  have d: "p400 \<Longrightarrow> p100"
    unfolding p400_def p100_def using mod_mod_cancel [of 100 400 y] by simp
  have e: "p100 \<Longrightarrow> p4"
    unfolding p4_def p100_def using mod_mod_cancel [of 4 100 y] by simp
  have leap: "year_length y = (if p4 \<and> (\<not> p100 \<or> p400) then 366 else 365)"
    by (simp only: year_length_def is_leap_def p4_def p100_def p400_def)
  have "days_before_year (y + 1) - days_before_year y =
      365 + (y div 4 - (y - 1) div 4) - (y div 100 - (y - 1) div 100)
        + (y div 400 - (y - 1) div 400)"
    by (simp add: days_before_year_def Let_def algebra_simps)
  also have "\<dots> = 365 + (if p4 then 1 else 0) - (if p100 then 1 else 0)
      + (if p400 then 1 else 0)"
    by (simp only: a b c)
  also have "\<dots> = year_length y"
    unfolding leap using d e by (cases p4; cases p100; cases p400; simp)
  finally show ?thesis
    by simp
qed

lemma year_length_pos: "0 < year_length y"
  by (simp add: year_length_def)

lemma days_before_year_mono:
  assumes "y < y'"
  shows "days_before_year y + year_length y \<le> days_before_year y'"
proof -
  have "\<And>k::nat. days_before_year y + year_length y \<le> days_before_year (y + 1 + int k)"
  proof -
    fix k :: nat
    show "days_before_year y + year_length y \<le> days_before_year (y + 1 + int k)"
    proof (induction k)
      case 0
      then show ?case by (simp add: days_before_year_step)
    next
      case (Suc k)
      have "days_before_year (y + 1 + int k + 1) =
          days_before_year (y + 1 + int k) + year_length (y + 1 + int k)"
        by (rule days_before_year_step)
      then show ?case
        using Suc.IH year_length_pos [of "y + 1 + int k"] by (simp add: add.assoc)
    qed
  qed
  from this [of "nat (y' - y - 1)"] assms show ?thesis
    by simp
qed

text \<open>The ordinal is strictly monotone in the tuple order of well-formed dates.\<close>

lemma toordinal_strict_mono:
  assumes "valid_date a" "valid_date b" "date_lt a b"
  shows "toordinal a < toordinal b"
proof -
  have va: "1 \<le> month a" "month a \<le> 12" "1 \<le> day a"
    "day a \<le> days_in_month (year a) (month a)"
    using assms(1) by (simp_all add: valid_date_def)
  have vb: "1 \<le> month b" "month b \<le> 12" "1 \<le> day b"
    "day b \<le> days_in_month (year b) (month b)"
    using assms(2) by (simp_all add: valid_date_def)
  consider (y) "year a < year b"
    | (m) "year a = year b" "month a < month b"
    | (d) "year a = year b" "month a = month b" "day a < day b"
    using assms(3) by (auto simp: date_lt_def date_key_def less_prod_def order_le_less)
  then show ?thesis
  proof cases
    case y
    have "days_before_month (year a) (month a) + day a \<le> year_length (year a)"
      using va by (intro day_of_year_le) simp_all
    moreover have "days_before_year (year a) + year_length (year a)
        \<le> days_before_year (year b)"
      using y by (rule days_before_year_mono)
    moreover have "0 \<le> days_before_month (year b) (month b)"
      using vb by (intro days_before_month_nonneg) simp_all
    ultimately show ?thesis
      using vb(3) by (simp add: toordinal_def ymd2ord_def)
  next
    case m
    have "days_before_month (year a) (month a) + days_in_month (year a) (month a)
        \<le> days_before_month (year a) (month b)"
      using va(1) m(2) vb(2) by (rule days_before_month_mono)
    then show ?thesis
      using va(4) vb(3) m(1) by (simp add: toordinal_def ymd2ord_def)
  next
    case d
    then show ?thesis
      by (simp add: toordinal_def ymd2ord_def)
  qed
qed

lemma date_key_inject: "date_key a = date_key b \<Longrightarrow> a = b"
  by (simp add: date_key_def)

lemma toordinal_mono:
  assumes "valid_date a" "valid_date b" "date_le a b"
  shows "toordinal a \<le> toordinal b"
proof (cases "date_lt a b")
  case True
  then show ?thesis
    using toordinal_strict_mono [OF assms(1,2)] by simp
next
  case False
  then have "date_key a = date_key b"
    using assms(3) by (simp add: date_lt_def date_le_def)
  then show ?thesis
    using date_key_inject by auto
qed

section \<open>Earned credits\<close>

lemma erreichte_ects_schleife_sum:
  "erreichte_ects_schleife ms acc =
     acc + sum_list (map m_ects (filter hasPruefungsleistung ms))"
  by (induction ms arbitrary: acc) simp_all

lemma sum_list_filter_mset:
  fixes f :: "'a \<Rightarrow> int"
  assumes "mset xs = mset ys"
  shows "sum_list (map f (filter P xs)) = sum_list (map f (filter P ys))"
proof -
  have "mset (filter P xs) = mset (filter P ys)"
    using assms by (simp only: mset_filter)
  then have "mset (map f (filter P xs)) = mset (map f (filter P ys))"
    by (metis mset_map)
  then show ?thesis
    by (metis sum_mset_sum_list)
qed

text \<open>
  Claim C5. The earned credits of a programme are the sum of the credits of exactly the
  modules that carry an exam result; the value does not change when the module list is
  permuted; it is 0 for an empty list and for a list without a completed module.
\<close>

theorem berechneErreichteECTS_sum_perm:
  "berechneErreichteECTS sg =
     sum_list (map m_ects (filter hasPruefungsleistung (sg_module_list sg)))
   \<and> (mset (sg_module_list sg) = mset (sg_module_list sg') \<longrightarrow>
        berechneErreichteECTS sg = berechneErreichteECTS sg')
   \<and> (sg_module_list sg = [] \<longrightarrow> berechneErreichteECTS sg = 0)
   \<and> ((\<forall>m \<in> set (sg_module_list sg). \<not> hasPruefungsleistung m) \<longrightarrow>
        berechneErreichteECTS sg = 0)"
proof -
  have sum: "\<And>s. berechneErreichteECTS s =
      sum_list (map m_ects (filter hasPruefungsleistung (sg_module_list s)))"
    by (simp add: berechneErreichteECTS_def erreichte_ects_schleife_sum)
  have none: "(\<forall>m \<in> set (sg_module_list sg). \<not> hasPruefungsleistung m) \<Longrightarrow>
      filter hasPruefungsleistung (sg_module_list sg) = []"
    by (simp add: filter_empty_conv)
  show ?thesis
    using sum sum_list_filter_mset [of "sg_module_list sg" "sg_module_list sg'"] none
    by auto
qed

theorem berechneErreichteECTS_sum_perm_witness:
  "mset (sg_module_list (mk_studiengang 8 180 d_2025_09_01 [modul_mathe, modul_offen, modul_stat]))
     = mset (sg_module_list (mk_studiengang 8 180 d_2025_09_01 [modul_stat, modul_mathe, modul_offen]))
   \<and> berechneErreichteECTS (mk_studiengang 8 180 d_2025_09_01 [modul_mathe, modul_offen, modul_stat]) = 10
   \<and> berechneErreichteECTS (mk_studiengang 8 180 d_2025_09_01 [modul_stat, modul_mathe, modul_offen]) = 10
   \<and> sg_module_list (mk_studiengang 8 180 d_2025_09_01 []) = []
   \<and> berechneErreichteECTS (mk_studiengang 8 180 d_2025_09_01 []) = 0
   \<and> \<not> hasPruefungsleistung modul_offen
   \<and> berechneErreichteECTS (mk_studiengang 8 180 d_2025_09_01 [modul_offen]) = 0"
proof -
  let ?a = "mk_studiengang 8 180 d_2025_09_01 [modul_mathe, modul_offen, modul_stat]"
  let ?b = "mk_studiengang 8 180 d_2025_09_01 [modul_stat, modul_mathe, modul_offen]"
  let ?e = "mk_studiengang 8 180 d_2025_09_01 []"
  let ?o = "mk_studiengang 8 180 d_2025_09_01 [modul_offen]"
  have perm: "mset (sg_module_list ?a) = mset (sg_module_list ?b)"
    by (simp add: mk_studiengang_def)
  have val: "sum_list (map m_ects (filter hasPruefungsleistung (sg_module_list ?a))) = 10"
    by (simp add: mk_studiengang_def mk_modul_def modul_mathe_def modul_offen_def
        modul_stat_def hasPruefungsleistung_def)
  have leer: "sg_module_list ?e = []"
    by (simp add: mk_studiengang_def)
  have offen: "\<forall>m \<in> set (sg_module_list ?o). \<not> hasPruefungsleistung m"
    by (simp add: mk_studiengang_def mk_modul_def modul_offen_def hasPruefungsleistung_def)
  show ?thesis
    using berechneErreichteECTS_sum_perm [of ?a ?b] berechneErreichteECTS_sum_perm [of ?e ?e]
      berechneErreichteECTS_sum_perm [of ?o ?o] perm val leer offen
    by (simp add: mk_studiengang_def)
qed

section \<open>Rounding and the weighted sums\<close>








section \<open>Pacing target\<close>




section \<open>Days required and their history\<close>


lemma insort_key_map:
  "insort_key f (g x) (map g ys) = map g (insort_key (\<lambda>y. f (g y)) x ys)"
  by (induction ys) simp_all

lemma sort_key_map:
  "sort_key f (map g xs) = map g (sort_key (\<lambda>y. f (g y)) xs)"
  by (induction xs) (simp_all add: insort_key_map)

lemma zeitaufwand_daten_filter:
  "zeitaufwand_daten ms =
     map (\<lambda>m. (m_name m, the (berechneBenoetigteTage m), exam_date m))
       (filter (\<lambda>m. berechneBenoetigteTage m \<noteq> None) ms)"
proof (induction ms)
  case Nil
  show ?case by simp
next
  case (Cons m ms)
  show ?case
  proof (cases "m_pruefungsleistung m")
    case None
    then have "berechneBenoetigteTage m = None"
      by (simp add: berechneBenoetigteTage_def)
    then show ?thesis
      using None Cons.IH by simp
  next
    case (Some p)
    then show ?thesis
      using Cons.IH by (cases "berechneBenoetigteTage m") (simp_all add: exam_date_def)
  qed
qed

lemma not_date_lt: "\<not> date_lt a b \<longleftrightarrow> date_le b a"
  by (simp add: date_lt_def date_le_def not_less)

text \<open>
  Claim C7. The days required by a module are defined exactly when the module has a
  start date and an exam result whose date is not before the start date; the value is
  then the number of days from the start date to the exam date (not negative for
  well-formed dates), and otherwise the result is \<open>None\<close>. The days-required history
  lists exactly the modules with a defined value, each with its name and value, ordered
  by exam date.
\<close>

theorem berechneBenoetigteTage_history:
  "(berechneBenoetigteTage m \<noteq> None \<longleftrightarrow>
      (\<exists>s p. m_startdatum m = Some s \<and> m_pruefungsleistung m = Some p
         \<and> date_le s (pl_datum p)))
   \<and> (\<forall>s p. m_startdatum m = Some s \<and> m_pruefungsleistung m = Some p
         \<and> date_le s (pl_datum p) \<longrightarrow>
         berechneBenoetigteTage m = Some (toordinal (pl_datum p) - toordinal s)
         \<and> (valid_date s \<and> valid_date (pl_datum p) \<longrightarrow>
              0 \<le> toordinal (pl_datum p) - toordinal s))
   \<and> ermittle_zeitaufwand_history sg =
       map (\<lambda>m. (m_name m, the (berechneBenoetigteTage m)))
         (sort_key (\<lambda>m. date_key (exam_date m))
            (filter (\<lambda>m. berechneBenoetigteTage m \<noteq> None) (sg_module_list sg)))
   \<and> sorted (map (\<lambda>m. date_key (exam_date m))
         (sort_key (\<lambda>m. date_key (exam_date m))
            (filter (\<lambda>m. berechneBenoetigteTage m \<noteq> None) (sg_module_list sg))))"
proof -
  have iff: "berechneBenoetigteTage m \<noteq> None \<longleftrightarrow>
      (\<exists>s p. m_startdatum m = Some s \<and> m_pruefungsleistung m = Some p
         \<and> date_le s (pl_datum p))"
    by (auto simp: berechneBenoetigteTage_def date_lt_def date_le_def split: option.splits)
  have val: "\<forall>s p. m_startdatum m = Some s \<and> m_pruefungsleistung m = Some p
         \<and> date_le s (pl_datum p) \<longrightarrow>
         berechneBenoetigteTage m = Some (toordinal (pl_datum p) - toordinal s)
         \<and> (valid_date s \<and> valid_date (pl_datum p) \<longrightarrow>
              0 \<le> toordinal (pl_datum p) - toordinal s)"
    using toordinal_mono
    by (auto simp: berechneBenoetigteTage_def not_date_lt [symmetric] days_between_def)
  have hist: "ermittle_zeitaufwand_history sg =
       map (\<lambda>m. (m_name m, the (berechneBenoetigteTage m)))
         (sort_key (\<lambda>m. date_key (exam_date m))
            (filter (\<lambda>m. berechneBenoetigteTage m \<noteq> None) (sg_module_list sg)))"
    by (simp add: ermittle_zeitaufwand_history_def zeitaufwand_daten_filter sort_key_map
        o_def)
  have srt: "sorted (map (\<lambda>m. date_key (exam_date m))
         (sort_key (\<lambda>m. date_key (exam_date m))
            (filter (\<lambda>m. berechneBenoetigteTage m \<noteq> None) (sg_module_list sg))))"
    by (rule sorted_sort_key)
  show ?thesis
    using iff val hist srt by blast
qed

theorem berechneBenoetigteTage_history_witness:
  "m_startdatum modul_mathe = Some d_2025_09_01
   \<and> m_pruefungsleistung modul_mathe = Some \<lparr>pl_note = 1, pl_datum = d_2025_10_01\<rparr>
   \<and> date_le d_2025_09_01 d_2025_10_01
   \<and> valid_date d_2025_09_01 \<and> valid_date d_2025_10_01
   \<and> berechneBenoetigteTage modul_mathe = Some 30
   \<and> berechneBenoetigteTage modul_inkonsistent = None
   \<and> berechneBenoetigteTage modul_ohne_start = None
   \<and> berechneBenoetigteTage modul_offen = None
   \<and> ermittle_zeitaufwand_history
        (mk_studiengang 8 180 d_2025_09_01
           [modul_prog, modul_inkonsistent, modul_mathe, modul_offen, modul_ohne_start,
            modul_stat])
       = [(''Mathe'', 30), (''Statistik'', 45), (''Programmierung'', 78)]"
proof -
  let ?sg = "mk_studiengang 8 180 d_2025_09_01
           [modul_prog, modul_inkonsistent, modul_mathe, modul_offen, modul_ohne_start,
            modul_stat]"
  have a: "m_startdatum modul_mathe = Some d_2025_09_01"
    by (simp add: modul_mathe_def mk_modul_def)
  have b: "m_pruefungsleistung modul_mathe = Some \<lparr>pl_note = 1, pl_datum = d_2025_10_01\<rparr>"
    by (simp add: modul_mathe_def mk_modul_def)
  have c: "date_le d_2025_09_01 d_2025_10_01"
    by code_simp
  have d: "valid_date d_2025_09_01" "valid_date d_2025_10_01"
    by code_simp+
  have e: "toordinal d_2025_10_01 - toordinal d_2025_09_01 = 30"
    by code_simp
  have f: "berechneBenoetigteTage modul_inkonsistent = None"
    "berechneBenoetigteTage modul_ohne_start = None"
    "berechneBenoetigteTage modul_offen = None"
    by code_simp+
  have g: "map (\<lambda>m. (m_name m, the (berechneBenoetigteTage m)))
         (sort_key (\<lambda>m. date_key (exam_date m))
            (filter (\<lambda>m. berechneBenoetigteTage m \<noteq> None) (sg_module_list ?sg)))
      = [(''Mathe'', 30), (''Statistik'', 45), (''Programmierung'', 78)]"
    by code_simp
  show ?thesis
    using berechneBenoetigteTage_history [of modul_mathe ?sg] a b c d e f g
    by simp
qed

section \<open>Goal forecast\<close>

lemma berechne_progress_daten_ist:
  assumes "berechne_progress_daten sg heute = Inr pr"
  shows "ist_ects pr = berechneErreichteECTS sg"
  using assms
  by (auto simp: berechne_progress_daten_def Let_def split: sum.splits)

text \<open>
  Claim C9. With the progress data computed for the programme and any grade average:
  the grade goal is met exactly when the average is defined and at most 1.9; the pace
  goal is met exactly when the earned credits reach the expected credits of the
  progress data; the planned years are half the planned semesters.
\<close>

theorem berechne_prognose_daten_goals:
  assumes "berechne_progress_daten sg heute = Inr pr"
  shows "(noten_ziel_erreicht (berechne_prognose_daten sg pr durchschnitt) \<longleftrightarrow>
            (\<exists>a. durchschnitt = Some a \<and> a \<le> 19 / 10))
    \<and> (zeit_ziel_erreicht (berechne_prognose_daten sg pr durchschnitt) \<longleftrightarrow>
            soll_ects pr \<le> berechneErreichteECTS sg)
    \<and> regelstudienzeit_jahre (berechne_prognose_daten sg pr durchschnitt) =
         of_int (sg_regelstudienzeit sg) / 2"
  using berechne_progress_daten_ist [OF assms]
  by (cases durchschnitt) (simp_all add: berechne_prognose_daten_def)

theorem berechne_prognose_daten_goals_witness:
  "berechne_progress_daten (mk_studiengang 8 180 d_2025_09_01 [modul_mathe, modul_offen])
       d_2026_02_01 = Inr \<lparr>ist_ects = 5, soll_ects = 20, gesamt_ects = 180\<rparr>
   \<and> berechneNotendurchschnitt (mk_studiengang 8 180 d_2025_09_01 [modul_mathe, modul_offen])
       = Some 1
   \<and> berechne_prognose_daten (mk_studiengang 8 180 d_2025_09_01 [modul_mathe, modul_offen])
        \<lparr>ist_ects = 5, soll_ects = 20, gesamt_ects = 180\<rparr> (Some 1)
       = \<lparr>noten_ziel_erreicht = True, zeit_ziel_erreicht = False,
          regelstudienzeit_jahre = 4\<rparr>"
proof -
  let ?sg = "mk_studiengang 8 180 d_2025_09_01 [modul_mathe, modul_offen]"
  let ?pr = "\<lparr>ist_ects = 5, soll_ects = 20, gesamt_ects = 180\<rparr>"
  have a: "berechne_progress_daten ?sg d_2026_02_01 = Inr ?pr"
    by code_simp
  have b: "berechneNotendurchschnitt ?sg = Some 1"
    by code_simp
  have c: "berechneErreichteECTS ?sg = 5" "sg_regelstudienzeit ?sg = 8"
    by code_simp+
  have d: "\<And>p. p = \<lparr>noten_ziel_erreicht = noten_ziel_erreicht p,
      zeit_ziel_erreicht = zeit_ziel_erreicht p,
      regelstudienzeit_jahre = regelstudienzeit_jahre p\<rparr>"
    by simp
  show ?thesis
    using berechne_prognose_daten_goals [OF a, of "Some 1"] a b c
      d [of "berechne_prognose_daten ?sg ?pr (Some 1)"]
    by simp
qed

section \<open>Recording exam results\<close>













section \<open>Rendering of the pacing target in the snapshot\<close>

lemma tage_text_not_unendlich: "format_0f r @ '' Tage'' \<noteq> unendlich"
proof
  assume "format_0f r @ '' Tage'' = unendlich"
  then have "last (format_0f r @ '' Tage'') = last unendlich"
    by simp
  then show False
    by (simp add: unendlich_def)
qed

lemma tage_text_unendlich_iff: "tage_text r = unendlich \<longleftrightarrow> 999 \<le> r"
  by (simp add: tage_text_def tage_text_not_unendlich)

lemma erzeuge_dashboard_daten_felder:
  assumes "erzeuge_dashboard_daten store heute rd i = Inr (Some dd)"
  shows "\<exists>sg. store i = Some sg
    \<and> tage_pro_modul_richtwert dd = berechneTageProModulRichtwert sg rd
    \<and> tage_pro_modul_text dd = tage_text (tage_pro_modul_richtwert dd)"
  using assms
  by (auto simp: erzeuge_dashboard_daten_def lade_studiengang_def Let_def
      split: option.splits sum.splits)

text \<open>
  Claim C6, as the code has it. In the snapshot the pacing text is the infinity sign
  exactly when the pacing value is at least 999, which is the case for the sentinel of
  an exhausted timeline and for every value of the normal branch that reaches 999;
  otherwise the text is the value rounded to an integer, followed by the unit.
\<close>

theorem tage_pro_modul_text_unendlich:
  assumes "erzeuge_dashboard_daten store heute rd i = Inr (Some dd)"
  shows "store i \<noteq> None
    \<and> tage_pro_modul_richtwert dd = berechneTageProModulRichtwert (the (store i)) rd
    \<and> (tage_pro_modul_text dd = unendlich \<longleftrightarrow> 999 \<le> tage_pro_modul_richtwert dd)
    \<and> (tage_pro_modul_richtwert dd < 999 \<longrightarrow>
          tage_pro_modul_text dd = format_0f (tage_pro_modul_richtwert dd) @ '' Tage'')
    \<and> (0 < outstandingCredits (the (store i)) \<and> remainingDays (the (store i)) rd \<le> 0
          \<longrightarrow> tage_pro_modul_text dd = unendlich)"
proof -
  obtain sg where sg: "store i = Some sg"
    and r: "tage_pro_modul_richtwert dd = berechneTageProModulRichtwert sg rd"
    and t: "tage_pro_modul_text dd = tage_text (tage_pro_modul_richtwert dd)"
    using erzeuge_dashboard_daten_felder [OF assms] by blast
  have "0 < outstandingCredits sg \<and> remainingDays sg rd \<le> 0 \<longrightarrow>
      berechneTageProModulRichtwert sg rd = 999"
    by (simp add: berechneTageProModulRichtwert_def Let_def outstandingCredits_def
        remainingDays_def TAGE_PRO_JAHR_def SEMESTER_PRO_JAHR_def URLAUBSTAGE_PRO_JAHR_def
        days_between_def)
  then show ?thesis
    using sg r t by (auto simp: tage_text_unendlich_iff tage_text_def tage_text_not_unendlich)
qed


theorem tage_pro_modul_text_unendlich_witness:
  "erzeuge_dashboard_daten [1 \<mapsto> sg_beispiel] d_2026_02_01 d_2025_10_01 1
      = Inr (Some dd_beispiel)
   \<and> tage_pro_modul_richtwert dd_beispiel < 999
   \<and> tage_pro_modul_text dd_beispiel = ''36 Tage''
   \<and> erzeuge_dashboard_daten [1 \<mapsto> sg_beispiel] d_2030_01_01 d_2030_01_01 1
      = Inr (Some dd_abgelaufen)
   \<and> 0 < outstandingCredits sg_beispiel \<and> remainingDays sg_beispiel d_2030_01_01 \<le> 0
   \<and> tage_pro_modul_text dd_abgelaufen = unendlich"
proof -
  have a: "erzeuge_dashboard_daten [1 \<mapsto> sg_beispiel] d_2026_02_01 d_2025_10_01 1
      = Inr (Some dd_beispiel)"
    by code_simp
  have b: "erzeuge_dashboard_daten [1 \<mapsto> sg_beispiel] d_2030_01_01 d_2030_01_01 1
      = Inr (Some dd_abgelaufen)"
    by code_simp
  have c: "tage_pro_modul_richtwert dd_beispiel < 999"
    "format_0f (tage_pro_modul_richtwert dd_beispiel) @ '' Tage'' = ''36 Tage''"
    by code_simp+
  have d: "0 < outstandingCredits sg_beispiel" "remainingDays sg_beispiel d_2030_01_01 \<le> 0"
    by code_simp+
  show ?thesis
    using tage_pro_modul_text_unendlich [OF a] tage_pro_modul_text_unendlich [OF b] a b c d
    by simp
qed

text \<open>
  The claim as written fails: a value of the normal branch is rendered as the infinity
  sign. With 8 planned semesters, 5 outstanding credits and the start date as reference
  date, 1293 days remain, the pacing value is 1293 and not the sentinel, and its text is
  the infinity sign.
\<close>

theorem tage_pro_modul_text_counterexample:
  "0 < outstandingCredits sg_kurz \<and> 0 < remainingDays sg_kurz d_2025_09_01
   \<and> berechneTageProModulRichtwert sg_kurz d_2025_09_01 = 1293
   \<and> berechneTageProModulRichtwert sg_kurz d_2025_09_01 \<noteq> 999
   \<and> erzeuge_dashboard_daten [1 \<mapsto> sg_kurz] d_2025_09_01 d_2025_09_01 1
        = Inr (Some dd_kurz)
   \<and> tage_pro_modul_richtwert dd_kurz = 1293
   \<and> tage_pro_modul_text dd_kurz = unendlich"
proof -
  have a: "0 < outstandingCredits sg_kurz" "0 < remainingDays sg_kurz d_2025_09_01"
    by code_simp+
  have b: "berechneTageProModulRichtwert sg_kurz d_2025_09_01 = 1293"
    by code_simp
  have c: "erzeuge_dashboard_daten [1 \<mapsto> sg_kurz] d_2025_09_01 d_2025_09_01 1
        = Inr (Some dd_kurz)"
    by code_simp
  show ?thesis
    using a b c by (simp add: dd_kurz_def)
qed

section \<open>Totality of the calculators\<close>

text \<open>
  Claim C8. Every calculator is total on every programme and raises no exception, also
  when completed modules exist whose credits sum to zero. The trajectory does not meet
  this: for a programme whose chronologically first completed module has 0 credits the
  cumulative quotient divides by zero, while the weighted average of the same programme
  guards the division and returns a value. With an empty module list all four
  calculators return their degenerate results.
\<close>

theorem berechneNotendurchschnittVerlauf_zero_credits:
  "berechneNotendurchschnittVerlauf sg_null = Inl ZeroDivisionError
   \<and> berechneNotendurchschnitt sg_null = Some 2
   \<and> berechneErreichteECTS sg_null = 5
   \<and> berechneNotendurchschnittVerlauf (mk_studiengang 8 180 d_2025_09_01 [modul_null])
        = Inl ZeroDivisionError
   \<and> berechneNotendurchschnitt (mk_studiengang 8 180 d_2025_09_01 [modul_null]) = None
   \<and> berechneErreichteECTS (mk_studiengang 8 180 d_2025_09_01 []) = 0
   \<and> berechneNotendurchschnitt (mk_studiengang 8 180 d_2025_09_01 []) = None
   \<and> berechneNotendurchschnittVerlauf (mk_studiengang 8 180 d_2025_09_01 []) = Inr []
   \<and> berechneTageProModulRichtwert (mk_studiengang 8 180 d_2025_09_01 []) d_2025_10_01
        = 3508 / 100"
  by code_simp

section \<open>Grade-average trajectory\<close>


lemma credit_sum_pos:
  assumes "\<forall>m \<in> set ms. 0 < m_ects m" "ms \<noteq> []"
  shows "0 < credit_sum ms"
  using assms
proof (induction ms)
  case Nil
  then show ?case by simp
next
  case (Cons m ms)
  then show ?case
    by (cases ms) (auto simp: credit_sum_def intro: add_pos_pos)
qed

lemma credit_sum_nonneg:
  assumes "\<forall>m \<in> set ms. 0 < m_ects m"
  shows "0 \<le> credit_sum ms"
  using credit_sum_pos [OF assms] by (cases ms) (auto simp: credit_sum_def)








section \<open>Weighted grade average\<close>









section \<open>Expected credits by today\<close>
























end
